theory Spec2Isabelle
  imports Main "HOL-Library.Word"
begin

unbundle bit_operations_syntax

section \<open>Data model\<close>

text \<open>
  The platform independent context class of OpenPnP-Capture (\<^verbatim>\<open>common/context.cpp\<close>).
  Fixed-width C++ integers are 32-bit words: \<^verbatim>\<open>uint32_t\<close> is read with \<open>unat\<close>,
  \<^verbatim>\<open>int32_t\<close> with \<open>sint\<close>.
\<close>

type_synonym uint32_t = "32 word"
type_synonym int32_t = "32 word"

text \<open>
  Modelled from the spec: the typedefs \<^verbatim>\<open>CapDeviceID\<close> and \<^verbatim>\<open>CapFormatID\<close> of
  \<^verbatim>\<open>openpnp-capture.h\<close> (ordinal indices, unsigned 32-bit) and the struct
  \<^verbatim>\<open>CapFormatInfo\<close> (width, height, pixel-format tag), of which \<^verbatim>\<open>context.cpp\<close> reads the
  fields \<^verbatim>\<open>width\<close>, \<^verbatim>\<open>height\<close> and \<^verbatim>\<open>fourcc\<close>.
\<close>

type_synonym CapDeviceID = uint32_t
type_synonym CapFormatID = uint32_t

record CapFormatInfo =
  width :: uint32_t
  height :: uint32_t
  fourcc :: uint32_t

text \<open>
  Modelled from the spec: the platform struct \<^verbatim>\<open>deviceInfo\<close> of \<^verbatim>\<open>deviceinfo.h\<close> (display
  name and ordered list of formats), of which \<^verbatim>\<open>context.cpp\<close> reads \<^verbatim>\<open>m_name\<close> and
  \<^verbatim>\<open>m_formats\<close>.
\<close>

record deviceInfo =
  m_name :: string
  m_formats :: "CapFormatInfo list"

text \<open>
  Undefined behaviour of the C++ program is a value: every operation that can reach it
  returns \<open>Inl\<close> of the fault, and \<open>Inr\<close> of its return value and the new state otherwise.
\<close>

datatype fault = NullDereference | DanglingPointer

text \<open>
  A pointer to a \<^verbatim>\<open>Stream\<close> object is \<open>None\<close> for \<^verbatim>\<open>nullptr\<close> and \<open>Some a\<close> for the address \<open>a\<close>
  in the free store. The free store is a list of cells indexed by address; a cell is
  \<open>None\<close> once the object in it has been deleted.

  The members of \<^verbatim>\<open>Context\<close>, as \<^verbatim>\<open>context.cpp\<close> uses them: \<^verbatim>\<open>m_devices\<close> is a vector of
  pointers to device descriptors (the code compares its elements with \<^verbatim>\<open>nullptr\<close>;
  descriptors are immutable, so a non-null pointer is the descriptor itself),
  \<^verbatim>\<open>m_streams\<close> is a \<^verbatim>\<open>std::map<int32_t, Stream*>\<close>, an association list with unique keys,
  and \<^verbatim>\<open>m_streamCounter\<close> is an \<^verbatim>\<open>int32_t\<close>. The field \<open>heap\<close> is the free store holding
  the \<^verbatim>\<open>Stream\<close> objects.
\<close>

type_synonym Stream_ptr = "nat option"

record 's Context =
  m_devices :: "deviceInfo option list"
  m_streams :: "(int32_t \<times> Stream_ptr) list"
  m_streamCounter :: int32_t
  heap :: "'s option list"

text \<open>The constructor: \<^verbatim>\<open>m_streamCounter(0)\<close>; the derived class fills \<^verbatim>\<open>m_devices\<close>.\<close>

definition Context_new :: "deviceInfo option list \<Rightarrow> 's Context" where
  "Context_new devs =
     \<lparr>m_devices = devs, m_streams = [], m_streamCounter = 0, heap = []\<rparr>"

section \<open>Device registry lookups\<close>

text \<open>\<^verbatim>\<open>Context::getDeviceName\<close>; the result \<open>None\<close> is \<^verbatim>\<open>NULL\<close>.\<close>

definition getDeviceName :: "'s Context \<Rightarrow> CapDeviceID \<Rightarrow> string option" where
  "getDeviceName ctx ident =
     (if unat ident \<ge> length (m_devices ctx) then None
      else case m_devices ctx ! unat ident of
             None \<Rightarrow> None
           | Some d \<Rightarrow> Some (m_name d))"

definition getDeviceCount :: "'s Context \<Rightarrow> uint32_t" where
  "getDeviceCount ctx = of_nat (length (m_devices ctx))"

text \<open>\<^verbatim>\<open>Context::getNumFormats\<close>; the size of the format vector is converted to \<^verbatim>\<open>int32_t\<close>.\<close>

definition getNumFormats :: "'s Context \<Rightarrow> CapDeviceID \<Rightarrow> int32_t" where
  "getNumFormats ctx index =
     (if unat index \<ge> length (m_devices ctx) then - 1
      else case m_devices ctx ! unat index of
             None \<Rightarrow> - 1
           | Some d \<Rightarrow> of_nat (length (m_formats d)))"

text \<open>
  \<^verbatim>\<open>Context::getFormatInfo\<close>; the out-parameter \<^verbatim>\<open>*info\<close> is passed in and returned with
  the result.
\<close>

definition getFormatInfo ::
  "'s Context \<Rightarrow> CapDeviceID \<Rightarrow> CapFormatID \<Rightarrow> CapFormatInfo \<Rightarrow> bool \<times> CapFormatInfo" where
  "getFormatInfo ctx index formatID info =
     (if unat index \<ge> length (m_devices ctx) then (False, info)
      else case m_devices ctx ! unat index of
             None \<Rightarrow> (False, info)
           | Some d \<Rightarrow>
               if unat formatID < length (m_formats d)
               then (True, m_formats d ! unat formatID)
               else (False, info))"

section \<open>FOURCC rendering\<close>

text \<open>
  \<^verbatim>\<open>fourCCToString\<close>: the loop \<^verbatim>\<open>for (i = 0; i < 4; i++)\<close> appends the low byte as a
  character and shifts the value right by eight bits.
\<close>

function fourCC_loop :: "nat \<Rightarrow> uint32_t \<Rightarrow> string \<Rightarrow> string" where
  "fourCC_loop i fcc v =
     (if i < 4
      then fourCC_loop (i + 1) (drop_bit 8 fcc) (v @ [char_of (unat (fcc AND 0xFF))])
      else v)"
  by pat_completeness auto
termination
  by (relation "measure (\<lambda>(i, fcc, v). 4 - i)") auto

definition fourCCToString :: "uint32_t \<Rightarrow> string" where
  "fourCCToString fcc = fourCC_loop 0 fcc []"

section \<open>The session table\<close>

text \<open>
  \<^verbatim>\<open>std::map\<close> as an association list with unique keys: \<^verbatim>\<open>find\<close>, \<^verbatim>\<open>insert\<close> (which leaves
  an existing entry alone), \<^verbatim>\<open>erase\<close>, \<^verbatim>\<open>size\<close> (the length of the list) and
  \<^verbatim>\<open>operator[]\<close>, which inserts a value-initialised entry (a null pointer) when the key is
  absent and returns the entry's value.
\<close>

definition map_find :: "'k \<Rightarrow> ('k \<times> 'v) list \<Rightarrow> 'v option" where
  "map_find k m = map_of m k"

definition map_insert :: "'k \<Rightarrow> 'v \<Rightarrow> ('k \<times> 'v) list \<Rightarrow> ('k \<times> 'v) list" where
  "map_insert k v m = (case map_of m k of None \<Rightarrow> m @ [(k, v)] | Some _ \<Rightarrow> m)"

definition map_erase :: "'k \<Rightarrow> ('k \<times> 'v) list \<Rightarrow> ('k \<times> 'v) list" where
  "map_erase k m = filter (\<lambda>kv. fst kv \<noteq> k) m"

definition map_subscript ::
  "'k \<Rightarrow> ('k \<times> 'a option) list \<Rightarrow> 'a option \<times> ('k \<times> 'a option) list" where
  "map_subscript k m =
     (case map_of m k of None \<Rightarrow> (None, m @ [(k, None)]) | Some p \<Rightarrow> (p, m))"

section \<open>Stream objects\<close>

text \<open>
  The class \<^verbatim>\<open>Stream\<close> (\<^verbatim>\<open>stream.h\<close>) and the virtual \<^verbatim>\<open>createPlatformStream\<close> are platform
  code outside \<^verbatim>\<open>context.cpp\<close>; the context is parametrised by them. A method takes the
  object's state \<open>'s\<close> and returns its result with the new state. Out-parameters
  (\<^verbatim>\<open>*min\<close>, \<^verbatim>\<open>*max\<close>, the RGB buffer) are passed in and returned with the result.
  \<open>Stream_construct\<close> is the state of the object \<^verbatim>\<open>createPlatformStream\<close> returns.
\<close>

record 's Stream_ops =
  Stream_construct :: "'s"
  Stream_open :: "deviceInfo \<Rightarrow> uint32_t \<Rightarrow> uint32_t \<Rightarrow> uint32_t \<Rightarrow> 's \<Rightarrow> bool \<times> 's"
  Stream_isOpen :: "'s \<Rightarrow> bool \<times> 's"
  Stream_captureFrame :: "8 word list \<Rightarrow> nat \<Rightarrow> 's \<Rightarrow> (bool \<times> 8 word list) \<times> 's"
  Stream_hasNewFrame :: "'s \<Rightarrow> bool \<times> 's"
  Stream_getFrameCount :: "'s \<Rightarrow> uint32_t \<times> 's"
  Stream_getFOURCC :: "'s \<Rightarrow> uint32_t \<times> 's"
  Stream_getPropertyLimits ::
    "uint32_t \<Rightarrow> int32_t \<Rightarrow> int32_t \<Rightarrow> 's \<Rightarrow> (bool \<times> int32_t \<times> int32_t) \<times> 's"
  Stream_setAutoProperty :: "uint32_t \<Rightarrow> bool \<Rightarrow> 's \<Rightarrow> bool \<times> 's"
  Stream_setProperty :: "uint32_t \<Rightarrow> int32_t \<Rightarrow> 's \<Rightarrow> bool \<times> 's"

text \<open>\<^verbatim>\<open>new\<close>: the object is placed in a fresh cell of the free store.\<close>

definition createPlatformStream :: "'s Stream_ops \<Rightarrow> 's Context \<Rightarrow> Stream_ptr \<times> 's Context" where
  "createPlatformStream ops ctx =
     (Some (length (heap ctx)), ctx\<lparr>heap := heap ctx @ [Some (Stream_construct ops)]\<rparr>)"

text \<open>
  \<^verbatim>\<open>p->method(...)\<close>: a null pointer and a pointer to a deleted object are faults;
  otherwise the method runs on the object and the object's new state is written back.
\<close>

definition invoke ::
  "('s \<Rightarrow> 'r \<times> 's) \<Rightarrow> Stream_ptr \<Rightarrow> 's Context \<Rightarrow> fault + ('r \<times> 's Context)" where
  "invoke method p ctx =
     (case p of
        None \<Rightarrow> Inl NullDereference
      | Some a \<Rightarrow>
          if a < length (heap ctx)
          then case heap ctx ! a of
                 None \<Rightarrow> Inl DanglingPointer
               | Some s \<Rightarrow>
                   Inr (fst (method s), ctx\<lparr>heap := (heap ctx)[a := Some (snd (method s))]\<rparr>)
          else Inl DanglingPointer)"

text \<open>\<^verbatim>\<open>delete p\<close>: nothing for a null pointer; deleting a deleted object is a fault.\<close>

definition delete_Stream :: "Stream_ptr \<Rightarrow> 's Context \<Rightarrow> fault + 's Context" where
  "delete_Stream p ctx =
     (case p of
        None \<Rightarrow> Inr ctx
      | Some a \<Rightarrow>
          if a < length (heap ctx)
          then case heap ctx ! a of
                 None \<Rightarrow> Inl DanglingPointer
               | Some s \<Rightarrow> Inr (ctx\<lparr>heap := (heap ctx)[a := None]\<rparr>)
          else Inl DanglingPointer)"

section \<open>Session table helpers of the context\<close>

text \<open>\<^verbatim>\<open>Context::lookupStreamByID\<close>: the stored pointer, or \<^verbatim>\<open>nullptr\<close> when the key is absent.\<close>

definition lookupStreamByID :: "'s Context \<Rightarrow> int32_t \<Rightarrow> Stream_ptr" where
  "lookupStreamByID ctx ID =
     (case map_find ID (m_streams ctx) of
        Some p \<Rightarrow> p
      | None \<Rightarrow> None)"

text \<open>
  \<^verbatim>\<open>Context::storeStream\<close>: \<^verbatim>\<open>ID = m_streamCounter++\<close>, then the insertion. The function has
  no check on the counter: the increment of the 32-bit counter wraps around, from
  \<^verbatim>\<open>INT32_MAX\<close> to \<^verbatim>\<open>INT32_MIN\<close>, and the function goes on.
\<close>

definition storeStream :: "'s Context \<Rightarrow> Stream_ptr \<Rightarrow> int32_t \<times> 's Context" where
  "storeStream ctx stream =
     (let ID = m_streamCounter ctx
      in (ID, ctx\<lparr>m_streamCounter := m_streamCounter ctx + 1,
                  m_streams := map_insert ID stream (m_streams ctx)\<rparr>))"

text \<open>\<^verbatim>\<open>Context::removeStream\<close>: when the key is found, delete the object and erase the entry.\<close>

definition removeStream :: "'s Context \<Rightarrow> int32_t \<Rightarrow> fault + (bool \<times> 's Context)" where
  "removeStream ctx ID =
     (case map_find ID (m_streams ctx) of
        Some p \<Rightarrow>
          (case delete_Stream p ctx of
             Inl e \<Rightarrow> Inl e
           | Inr ctx1 \<Rightarrow> Inr (True, ctx1\<lparr>m_streams := map_erase ID (m_streams ctx1)\<rparr>))
      | None \<Rightarrow> Inr (False, ctx))"

section \<open>Public stream operations\<close>

text \<open>
  \<^verbatim>\<open>Context::openStream\<close>. The descriptor pointer is read after the bounds check on the
  device index and dereferenced for the bounds check on the format index. The loop that
  prints the FOURCC only writes to standard output; its call of \<^verbatim>\<open>getFOURCC\<close> is kept.
\<close>

definition openStream ::
  "'s Stream_ops \<Rightarrow> 's Context \<Rightarrow> CapDeviceID \<Rightarrow> CapFormatID \<Rightarrow> fault + (int32_t \<times> 's Context)" where
  "openStream ops ctx ident formatID =
     (if length (m_devices ctx) > unat ident
      then case m_devices ctx ! unat ident of
             None \<Rightarrow> Inl NullDereference
           | Some device \<Rightarrow>
               if unat formatID \<ge> length (m_formats device) then Inr (- 1, ctx)
               else
                 let (s, ctx1) = createPlatformStream ops ctx;
                     fmt = m_formats device ! unat formatID
                 in (case invoke (Stream_open ops device (width fmt) (height fmt) (fourcc fmt)) s ctx1 of
                       Inl e \<Rightarrow> Inl e
                     | Inr (ok, ctx2) \<Rightarrow>
                         if \<not> ok then Inr (- 1, ctx2)
                         else (case invoke (Stream_getFOURCC ops) s ctx2 of
                                 Inl e \<Rightarrow> Inl e
                               | Inr (fcc, ctx3) \<Rightarrow> Inr (storeStream ctx3 s)))
      else Inr (- 1, ctx))"

text \<open>
  \<^verbatim>\<open>Context::closeStream\<close>: a failure of \<^verbatim>\<open>removeStream\<close> is logged and the function goes on
  to \<^verbatim>\<open>return true\<close>.
\<close>

definition closeStream :: "'s Context \<Rightarrow> int32_t \<Rightarrow> fault + (bool \<times> 's Context)" where
  "closeStream ctx streamID =
     (if sint streamID < 0 then Inr (False, ctx)
      else case removeStream ctx streamID of
             Inl e \<Rightarrow> Inl e
           | Inr (removed, ctx1) \<Rightarrow> Inr (True, ctx1))"

text \<open>
  The four operations below share one shape: reject a negative ID, reject an ID whose
  unsigned value is not below \<^verbatim>\<open>m_streams.size()\<close>, then call the method through
  \<^verbatim>\<open>m_streams[streamID]\<close>.
\<close>

definition isOpenStream ::
  "'s Stream_ops \<Rightarrow> 's Context \<Rightarrow> int32_t \<Rightarrow> fault + (uint32_t \<times> 's Context)" where
  "isOpenStream ops ctx streamID =
     (if sint streamID < 0 then Inr (0, ctx)
      else if unat streamID \<ge> length (m_streams ctx) then Inr (0, ctx)
      else let (p, ms) = map_subscript streamID (m_streams ctx)
           in case invoke (Stream_isOpen ops) p (ctx\<lparr>m_streams := ms\<rparr>) of
                Inl e \<Rightarrow> Inl e
              | Inr (b, ctx1) \<Rightarrow> Inr (if b then 1 else 0, ctx1))"

definition captureFrame ::
  "'s Stream_ops \<Rightarrow> 's Context \<Rightarrow> int32_t \<Rightarrow> 8 word list \<Rightarrow> nat \<Rightarrow>
     fault + ((bool \<times> 8 word list) \<times> 's Context)" where
  "captureFrame ops ctx streamID RGBbuffer RGBbufferBytes =
     (if sint streamID < 0 then Inr ((False, RGBbuffer), ctx)
      else if unat streamID \<ge> length (m_streams ctx) then Inr ((False, RGBbuffer), ctx)
      else let (p, ms) = map_subscript streamID (m_streams ctx)
           in invoke (Stream_captureFrame ops RGBbuffer RGBbufferBytes) p (ctx\<lparr>m_streams := ms\<rparr>))"

definition hasNewFrame ::
  "'s Stream_ops \<Rightarrow> 's Context \<Rightarrow> int32_t \<Rightarrow> fault + (bool \<times> 's Context)" where
  "hasNewFrame ops ctx streamID =
     (if sint streamID < 0 then Inr (False, ctx)
      else if unat streamID \<ge> length (m_streams ctx) then Inr (False, ctx)
      else let (p, ms) = map_subscript streamID (m_streams ctx)
           in invoke (Stream_hasNewFrame ops) p (ctx\<lparr>m_streams := ms\<rparr>))"

definition getStreamFrameCount ::
  "'s Stream_ops \<Rightarrow> 's Context \<Rightarrow> int32_t \<Rightarrow> fault + (uint32_t \<times> 's Context)" where
  "getStreamFrameCount ops ctx streamID =
     (if sint streamID < 0 then Inr (0, ctx)
      else if unat streamID \<ge> length (m_streams ctx) then Inr (0, ctx)
      else let (p, ms) = map_subscript streamID (m_streams ctx)
           in invoke (Stream_getFrameCount ops) p (ctx\<lparr>m_streams := ms\<rparr>))"

text \<open>The property operations look the stream up with \<^verbatim>\<open>lookupStreamByID\<close>.\<close>

definition getStreamPropertyLimits ::
  "'s Stream_ops \<Rightarrow> 's Context \<Rightarrow> int32_t \<Rightarrow> uint32_t \<Rightarrow> int32_t \<Rightarrow> int32_t \<Rightarrow>
     fault + ((bool \<times> int32_t \<times> int32_t) \<times> 's Context)" where
  "getStreamPropertyLimits ops ctx streamID propertyID pmin pmax =
     (let stream = lookupStreamByID ctx streamID
      in if stream = None then Inr ((False, pmin, pmax), ctx)
         else invoke (Stream_getPropertyLimits ops propertyID pmin pmax) stream ctx)"

definition setStreamAutoProperty ::
  "'s Stream_ops \<Rightarrow> 's Context \<Rightarrow> int32_t \<Rightarrow> uint32_t \<Rightarrow> bool \<Rightarrow> fault + (bool \<times> 's Context)" where
  "setStreamAutoProperty ops ctx streamID propertyID enable =
     (let stream = lookupStreamByID ctx streamID
      in if stream = None then Inr (False, ctx)
         else invoke (Stream_setAutoProperty ops propertyID enable) stream ctx)"

definition setStreamProperty ::
  "'s Stream_ops \<Rightarrow> 's Context \<Rightarrow> int32_t \<Rightarrow> uint32_t \<Rightarrow> int32_t \<Rightarrow> fault + (bool \<times> 's Context)" where
  "setStreamProperty ops ctx streamID propertyID val =
     (let stream = lookupStreamByID ctx streamID
      in if stream = None then Inr (False, ctx)
         else invoke (Stream_setProperty ops propertyID val) stream ctx)"

section \<open>Sequences of calls on one context\<close>

text \<open>
  A client drives a context by a sequence of public calls. \<open>step\<close> performs one call and
  gives its return value; \<open>run\<close> performs a sequence from left to right, collects the
  return values and stops at the first fault.
\<close>

datatype call =
    OpenStream CapDeviceID CapFormatID
  | CloseStream int32_t
  | IsOpenStream int32_t
  | CaptureFrame int32_t "8 word list" nat
  | HasNewFrame int32_t
  | GetStreamFrameCount int32_t
  | GetStreamPropertyLimits int32_t uint32_t int32_t int32_t
  | SetStreamAutoProperty int32_t uint32_t bool
  | SetStreamProperty int32_t uint32_t int32_t

datatype ret =
    RetHandle int32_t
  | RetBool bool
  | RetCount uint32_t
  | RetFrame "bool \<times> 8 word list"
  | RetLimits "bool \<times> int32_t \<times> int32_t"

definition returning :: "('a \<Rightarrow> ret) \<Rightarrow> fault + ('a \<times> 's Context) \<Rightarrow> fault + (ret \<times> 's Context)" where
  "returning f r = (case r of Inl e \<Rightarrow> Inl e | Inr (x, ctx) \<Rightarrow> Inr (f x, ctx))"

fun step :: "'s Stream_ops \<Rightarrow> 's Context \<Rightarrow> call \<Rightarrow> fault + (ret \<times> 's Context)" where
  "step ops ctx (OpenStream ident formatID) = returning RetHandle (openStream ops ctx ident formatID)"
| "step ops ctx (CloseStream h) = returning RetBool (closeStream ctx h)"
| "step ops ctx (IsOpenStream h) = returning RetCount (isOpenStream ops ctx h)"
| "step ops ctx (CaptureFrame h buf n) = returning RetFrame (captureFrame ops ctx h buf n)"
| "step ops ctx (HasNewFrame h) = returning RetBool (hasNewFrame ops ctx h)"
| "step ops ctx (GetStreamFrameCount h) = returning RetCount (getStreamFrameCount ops ctx h)"
| "step ops ctx (GetStreamPropertyLimits h pid pmin pmax) =
     returning RetLimits (getStreamPropertyLimits ops ctx h pid pmin pmax)"
| "step ops ctx (SetStreamAutoProperty h pid enable) =
     returning RetBool (setStreamAutoProperty ops ctx h pid enable)"
| "step ops ctx (SetStreamProperty h pid val) =
     returning RetBool (setStreamProperty ops ctx h pid val)"

fun run :: "'s Stream_ops \<Rightarrow> 's Context \<Rightarrow> call list \<Rightarrow> ret list \<times> (fault + 's Context)" where
  "run ops ctx [] = ([], Inr ctx)"
| "run ops ctx (c # cs) =
     (case step ops ctx c of
        Inl e \<Rightarrow> ([], Inl e)
      | Inr (r, ctx1) \<Rightarrow> (r # fst (run ops ctx1 cs), snd (run ops ctx1 cs)))"

text \<open>
  The handles that the \<^verbatim>\<open>openStream\<close> calls of a sequence returned, in order, leaving out
  the failure value \<open>-1\<close>.
\<close>

fun handle_of :: "ret \<Rightarrow> int32_t option" where
  "handle_of (RetHandle h) = (if h = - 1 then None else Some h)"
| "handle_of _ = None"

definition opened_handles :: "'s Stream_ops \<Rightarrow> 's Context \<Rightarrow> call list \<Rightarrow> int32_t list" where
  "opened_handles ops ctx cs = List.map_filter handle_of (fst (run ops ctx cs))"

text \<open>
  The result of the call \<^verbatim>\<open>s->open(this, device, width, height, fourcc)\<close> that \<^verbatim>\<open>openStream\<close>
  makes on the freshly created platform stream, for a device and a format index.
\<close>

definition opened_state :: "'s Stream_ops \<Rightarrow> deviceInfo \<Rightarrow> CapFormatID \<Rightarrow> bool \<times> 's" where
  "opened_state ops device formatID =
     Stream_open ops device
       (width (m_formats device ! unat formatID))
       (height (m_formats device ! unat formatID))
       (fourcc (m_formats device ! unat formatID))
       (Stream_construct ops)"

text \<open>
  The three ways an \<^verbatim>\<open>openStream\<close> call fails: the device index is out of range, the
  format index is out of range for that device, or the \<^verbatim>\<open>open\<close> method of the freshly
  created platform stream reports failure.
\<close>

definition openStream_fails :: "'s Stream_ops \<Rightarrow> 's Context \<Rightarrow> CapDeviceID \<Rightarrow> CapFormatID \<Rightarrow> bool" where
  "openStream_fails ops ctx ident formatID =
     (unat ident \<ge> length (m_devices ctx) \<or>
      (case m_devices ctx ! unat ident of
         None \<Rightarrow> False
       | Some device \<Rightarrow>
           unat formatID \<ge> length (m_formats device) \<or>
           \<not> fst (opened_state ops device formatID)))"

section \<open>A simulated platform\<close>

text \<open>
  A small platform stream and device table on which the operations are evaluated: the
  stream opens unless the requested width is 0, counts delivered frames, and offers one
  property (id 1) with limits 0 and 100. The table holds the device of the specification's
  example and one slot with a null descriptor.
\<close>

record sim_stream =
  sim_open :: bool
  sim_frames :: uint32_t

definition sim_ops :: "sim_stream Stream_ops" where
  "sim_ops =
     \<lparr>Stream_construct = \<lparr>sim_open = False, sim_frames = 0\<rparr>,
      Stream_open = (\<lambda>d w h f s. if w = 0 then (False, s) else (True, s\<lparr>sim_open := True\<rparr>)),
      Stream_isOpen = (\<lambda>s. (sim_open s, s)),
      Stream_captureFrame = (\<lambda>buf n s.
         if n < 3 then ((False, buf), s)
         else ((True, [1, 2, 3]), s\<lparr>sim_frames := sim_frames s + 1\<rparr>)),
      Stream_hasNewFrame = (\<lambda>s. (True, s)),
      Stream_getFrameCount = (\<lambda>s. (sim_frames s, s)),
      Stream_getFOURCC = (\<lambda>s. (0x56595559, s)),
      Stream_getPropertyLimits = (\<lambda>pid pmin pmax s.
         if pid = 1 then ((True, 0, 100), s) else ((False, pmin, pmax), s)),
      Stream_setAutoProperty = (\<lambda>pid enable s. (pid = 1, s)),
      Stream_setProperty = (\<lambda>pid val s. (pid = 1, s))\<rparr>"

definition sim_devices :: "deviceInfo option list" where
  "sim_devices =
     [Some \<lparr>m_name = ''Camera0'',
            m_formats = [\<lparr>width = 640, height = 480, fourcc = 0x56595559\<rparr>,
                         \<lparr>width = 1280, height = 720, fourcc = 0x56595559\<rparr>,
                         \<lparr>width = 0, height = 0, fourcc = 0\<rparr>]\<rparr>,
      None]"

definition sim_context :: "sim_stream Context" where
  "sim_context = Context_new sim_devices"

text \<open>
  The context after \<^verbatim>\<open>openStream(0,0)\<close>, \<^verbatim>\<open>openStream(0,0)\<close>, \<^verbatim>\<open>closeStream(0)\<close> on the
  simulated platform: handle 0 is closed, handle 1 is live.
\<close>

definition sim_stale :: "sim_stream Context" where
  "sim_stale =
     \<lparr>m_devices = sim_devices, m_streams = [(1, Some 1)], m_streamCounter = 2,
      heap = [None, Some \<lparr>sim_open = True, sim_frames = 0\<rparr>]\<rparr>"

lemmas context_defs =
  openStream_def closeStream_def isOpenStream_def captureFrame_def hasNewFrame_def
  getStreamFrameCount_def getStreamPropertyLimits_def setStreamAutoProperty_def
  setStreamProperty_def lookupStreamByID_def storeStream_def removeStream_def
  createPlatformStream_def invoke_def delete_Stream_def
  map_find_def map_insert_def map_erase_def map_subscript_def returning_def

lemmas sim_defs = sim_ops_def sim_devices_def sim_context_def Context_new_def sim_stale_def

section \<open>Properties of the device registry\<close>

lemma getDeviceCount_le_iff:
  assumes "length (m_devices ctx) < 2 ^ 32"
  shows "(getDeviceCount ctx \<le> deviceId) = (length (m_devices ctx) \<le> unat deviceId)"
proof -
  have "unat (of_nat (length (m_devices ctx)) :: 32 word) = length (m_devices ctx)"
    using assms by (simp add: unat_of_nat)
  then show ?thesis
    by (simp add: getDeviceCount_def word_le_nat_alt)
qed

lemma sim_context_size: "length (m_devices sim_context) < 2 ^ 32"
  by (simp add: sim_defs)

text \<open>
  Claim C6. For every device index at or beyond \<^verbatim>\<open>getDeviceCount()\<close>, \<^verbatim>\<open>getDeviceName\<close>,
  \<^verbatim>\<open>getNumFormats\<close> and \<^verbatim>\<open>getFormatInfo\<close> return their not-found value (\<^verbatim>\<open>NULL\<close>, \<open>-1\<close>,
  \<^verbatim>\<open>false\<close>), and they return the same when the descriptor at an in-range index is null.
  These functions are total and have no fault value, so they never crash. The registry
  holds fewer than \<open>2^32\<close> devices, so that the \<^verbatim>\<open>uint32_t\<close> count is the registry's size.
\<close>

theorem registry_lookup_NotFound:
  assumes "length (m_devices ctx) < 2 ^ 32"
    and "getDeviceCount ctx \<le> deviceId \<or> m_devices ctx ! unat deviceId = None"
  shows "getDeviceName ctx deviceId = None \<and> getNumFormats ctx deviceId = - 1
       \<and> getFormatInfo ctx deviceId formatId info = (False, info)"
  using assms(2) getDeviceCount_le_iff [OF assms(1), of deviceId]
  by (auto simp: getDeviceName_def getNumFormats_def getFormatInfo_def)

text \<open>On the simulated table: index 2 is out of range, index 1 holds a null descriptor.\<close>

theorem registry_lookup_NotFound_witness:
  "length (m_devices sim_context) < 2 ^ 32
   \<and> getDeviceCount sim_context \<le> 2
   \<and> getDeviceName sim_context 2 = None \<and> getNumFormats sim_context 2 = - 1
   \<and> getFormatInfo sim_context 2 0 \<lparr>width = 7, height = 7, fourcc = 7\<rparr> =
       (False, \<lparr>width = 7, height = 7, fourcc = 7\<rparr>)
   \<and> m_devices sim_context ! unat (1 :: CapDeviceID) = None
   \<and> getDeviceName sim_context 1 = None \<and> getNumFormats sim_context 1 = - 1
   \<and> getFormatInfo sim_context 1 0 \<lparr>width = 7, height = 7, fourcc = 7\<rparr> =
       (False, \<lparr>width = 7, height = 7, fourcc = 7\<rparr>)"
proof -
  have c: "getDeviceCount sim_context \<le> 2"
    by (simp add: sim_defs getDeviceCount_def)
  have n: "m_devices sim_context ! unat (1 :: CapDeviceID) = None"
    by (simp add: sim_defs)
  have a: "getDeviceCount sim_context \<le> 2 \<or> m_devices sim_context ! unat (2 :: CapDeviceID) = None"
    using c by simp
  have b: "getDeviceCount sim_context \<le> 1 \<or> m_devices sim_context ! unat (1 :: CapDeviceID) = None"
    using n by simp
  show ?thesis
    using registry_lookup_NotFound [OF sim_context_size a, of 0 "\<lparr>width = 7, height = 7, fourcc = 7\<rparr>"]
      registry_lookup_NotFound [OF sim_context_size b, of 0 "\<lparr>width = 7, height = 7, fourcc = 7\<rparr>"]
      sim_context_size c n
    by simp
qed

text \<open>
  Claim C7. \<^verbatim>\<open>getFormatInfo(deviceId, formatId, info)\<close> returns \<^verbatim>\<open>true\<close> and copies the
  device's format descriptor number \<^verbatim>\<open>formatId\<close> into \<^verbatim>\<open>*info\<close> exactly when \<^verbatim>\<open>deviceId\<close> is
  below the device count, the descriptor is present and \<^verbatim>\<open>formatId\<close> is below that device's
  number of formats; in every other case it returns \<^verbatim>\<open>false\<close> and leaves \<^verbatim>\<open>*info\<close> as it was.
  The registry holds fewer than \<open>2^32\<close> devices.
\<close>

theorem getFormatInfo_exactly_when:
  assumes "length (m_devices ctx) < 2 ^ 32"
  shows "getFormatInfo ctx deviceId formatId info =
     (if deviceId < getDeviceCount ctx \<and>
         (\<exists>d. m_devices ctx ! unat deviceId = Some d \<and> unat formatId < length (m_formats d))
      then (True, m_formats (the (m_devices ctx ! unat deviceId)) ! unat formatId)
      else (False, info))"
  using getDeviceCount_le_iff [OF assms, of deviceId]
  by (auto simp: getFormatInfo_def not_le [symmetric] split: option.splits)

theorem getFormatInfo_exactly_when_witness:
  "length (m_devices sim_context) < 2 ^ 32
   \<and> getFormatInfo sim_context 0 1 \<lparr>width = 7, height = 7, fourcc = 7\<rparr> =
       (True, \<lparr>width = 1280, height = 720, fourcc = 0x56595559\<rparr>)
   \<and> getFormatInfo sim_context 0 3 \<lparr>width = 7, height = 7, fourcc = 7\<rparr> =
       (False, \<lparr>width = 7, height = 7, fourcc = 7\<rparr>)"
  using getFormatInfo_exactly_when [OF sim_context_size, of 0 1 "\<lparr>width = 7, height = 7, fourcc = 7\<rparr>"]
    getFormatInfo_exactly_when [OF sim_context_size, of 0 3 "\<lparr>width = 7, height = 7, fourcc = 7\<rparr>"]
    sim_context_size
  by (simp add: sim_defs getDeviceCount_def)

section \<open>Properties of the FOURCC rendering\<close>

lemma byte_bound: "unat (x AND 0xFF) < 256" for x :: "32 word"
proof -
  have "unat (x AND 255) \<le> unat (255 :: 32 word)"
    by (rule word_and_le1 [THEN word_le_nat_alt [THEN iffD1]])
  then show ?thesis by simp
qed

lemma of_char_byte: "of_char (char_of (unat (x AND 0xFF))) = unat (x AND 0xFF)" for x :: "32 word"
  using byte_bound [of x] by simp

lemma fourCCToString_chars:
  "fourCCToString fcc =
     [char_of (unat (fcc AND 0xFF)), char_of (unat (drop_bit 8 fcc AND 0xFF)),
      char_of (unat (drop_bit 16 fcc AND 0xFF)), char_of (unat (drop_bit 24 fcc AND 0xFF))]"
  by (simp add: fourCCToString_def)

lemma fourCCToString_YUYV: "fourCCToString 0x56595559 = ''YUYV''"
  by (simp add: fourCCToString_def char_of_def bit_0)

text \<open>
  Claim C9. \<^verbatim>\<open>fourCCToString\<close> maps every 32-bit FOURCC value to a string of exactly four
  characters; the character at position \<open>i\<close> (for \<open>i = 0, 1, 2, 3\<close>) has as its code the
  \<open>i\<close>-th lowest byte of the value: the bytes are taken from low to high.
\<close>

theorem fourCCToString_low_to_high:
  "length (fourCCToString fcc) = 4 \<and>
   map of_char (fourCCToString fcc) =
     [unat (fcc AND 0xFF), unat (drop_bit 8 fcc AND 0xFF),
      unat (drop_bit 16 fcc AND 0xFF), unat (drop_bit 24 fcc AND 0xFF)]"
  by (simp only: fourCCToString_chars list.map of_char_byte list.size) simp

section \<open>Properties of the free store and the session table\<close>

lemma sint_of_nat_small: "c < 2 ^ 31 \<Longrightarrow> sint (of_nat c :: 32 word) = int c"
  by (simp add: sint_uint uint_nat unat_of_nat signed_take_bit_int_eq_self)

text \<open>A method called on the object just created runs on the constructed state.\<close>

lemma invoke_fresh:
  "invoke method (Some (length (heap ctx))) (ctx\<lparr>heap := heap ctx @ [Some s]\<rparr>) =
     Inr (fst (method s), ctx\<lparr>heap := heap ctx @ [Some (snd (method s))]\<rparr>)"
  by (simp add: invoke_def)

text \<open>Method calls and \<^verbatim>\<open>delete\<close> touch the free store only.\<close>

lemma invoke_members:
  "invoke method p ctx = Inr (r, ctx1) \<Longrightarrow>
     m_streamCounter ctx1 = m_streamCounter ctx \<and> m_streams ctx1 = m_streams ctx
     \<and> m_devices ctx1 = m_devices ctx"
  by (auto simp: invoke_def split: option.splits if_splits)

lemma delete_Stream_members:
  "delete_Stream p ctx = Inr ctx1 \<Longrightarrow>
     m_streamCounter ctx1 = m_streamCounter ctx \<and> m_streams ctx1 = m_streams ctx
     \<and> m_devices ctx1 = m_devices ctx"
  by (auto simp: delete_Stream_def split: option.splits if_splits)

section \<open>Properties of openStream\<close>

text \<open>\<^verbatim>\<open>openStream\<close> with the calls on the fresh object evaluated.\<close>

lemma openStream_unfold:
  "openStream ops ctx ident formatID =
     (if unat ident \<ge> length (m_devices ctx) then Inr (- 1, ctx)
      else case m_devices ctx ! unat ident of
             None \<Rightarrow> Inl NullDereference
           | Some device \<Rightarrow>
               if unat formatID \<ge> length (m_formats device) then Inr (- 1, ctx)
               else if \<not> fst (opened_state ops device formatID)
               then Inr (- 1, ctx\<lparr>heap := heap ctx @ [Some (snd (opened_state ops device formatID))]\<rparr>)
               else Inr (m_streamCounter ctx,
                         ctx\<lparr>heap := heap ctx @
                                  [Some (snd (Stream_getFOURCC ops (snd (opened_state ops device formatID))))],
                             m_streamCounter := m_streamCounter ctx + 1,
                             m_streams := map_insert (m_streamCounter ctx) (Some (length (heap ctx)))
                                            (m_streams ctx)\<rparr>))"
  by (simp add: openStream_def createPlatformStream_def invoke_fresh opened_state_def
      storeStream_def Let_def invoke_def split: option.splits)

lemma openStream_fails_iff:
  "openStream_fails ops ctx ident formatID =
     (unat ident \<ge> length (m_devices ctx) \<or>
      (\<exists>device. m_devices ctx ! unat ident = Some device \<and>
         (unat formatID \<ge> length (m_formats device) \<or> \<not> fst (opened_state ops device formatID))))"
  by (auto simp: openStream_fails_def split: option.splits)

lemma sim_openStream_fails:
  "openStream_fails sim_ops sim_context 5 0 \<and> openStream_fails sim_ops sim_context 0 7
   \<and> openStream_fails sim_ops sim_context 0 2"
  by (simp add: openStream_fails_def opened_state_def sim_defs)

text \<open>
  Claim C4. A failed \<^verbatim>\<open>openStream\<close> call (device index out of range, format index out of
  range, or the platform stream's \<^verbatim>\<open>open\<close> failing) returns \<open>-1\<close>, leaves the session table
  and the handle counter as they were, and the next \<^verbatim>\<open>openStream\<close> call returns what it
  would have returned had the failed call not happened.
\<close>

theorem failed_openStream_allocates_nothing:
  assumes "openStream_fails ops ctx ident formatID"
  shows "\<exists>ctx1. openStream ops ctx ident formatID = Inr (- 1, ctx1)
           \<and> m_streams ctx1 = m_streams ctx
           \<and> m_streamCounter ctx1 = m_streamCounter ctx
           \<and> m_devices ctx1 = m_devices ctx
           \<and> (\<forall>ident2 formatID2.
                 map_sum id fst (openStream ops ctx1 ident2 formatID2) =
                 map_sum id fst (openStream ops ctx ident2 formatID2))"
  using assms
  by (auto simp: openStream_fails_iff openStream_unfold split: option.splits)

text \<open>
  On the simulated platform: device 5 does not exist, device 0 has no format 7, and its
  format 2 (width 0) is refused by the stream.
\<close>

theorem failed_openStream_allocates_nothing_witness:
  "openStream_fails sim_ops sim_context 5 0
   \<and> (\<exists>ctx1. openStream sim_ops sim_context 5 0 = Inr (- 1, ctx1)
           \<and> m_streams ctx1 = m_streams sim_context
           \<and> m_streamCounter ctx1 = m_streamCounter sim_context
           \<and> m_devices ctx1 = m_devices sim_context
           \<and> (\<forall>ident2 formatID2.
                 map_sum id fst (openStream sim_ops ctx1 ident2 formatID2) =
                 map_sum id fst (openStream sim_ops sim_context ident2 formatID2)))
   \<and> openStream_fails sim_ops sim_context 0 7
   \<and> (\<exists>ctx1. openStream sim_ops sim_context 0 7 = Inr (- 1, ctx1)
           \<and> m_streams ctx1 = m_streams sim_context
           \<and> m_streamCounter ctx1 = m_streamCounter sim_context
           \<and> m_devices ctx1 = m_devices sim_context
           \<and> (\<forall>ident2 formatID2.
                 map_sum id fst (openStream sim_ops ctx1 ident2 formatID2) =
                 map_sum id fst (openStream sim_ops sim_context ident2 formatID2)))
   \<and> openStream_fails sim_ops sim_context 0 2
   \<and> (\<exists>ctx1. openStream sim_ops sim_context 0 2 = Inr (- 1, ctx1)
           \<and> m_streams ctx1 = m_streams sim_context
           \<and> m_streamCounter ctx1 = m_streamCounter sim_context
           \<and> m_devices ctx1 = m_devices sim_context
           \<and> (\<forall>ident2 formatID2.
                 map_sum id fst (openStream sim_ops ctx1 ident2 formatID2) =
                 map_sum id fst (openStream sim_ops sim_context ident2 formatID2)))"
proof -
  have a: "openStream_fails sim_ops sim_context 5 0"
    and b: "openStream_fails sim_ops sim_context 0 7"
    and c: "openStream_fails sim_ops sim_context 0 2"
    using sim_openStream_fails by simp_all
  show ?thesis
    using a b c failed_openStream_allocates_nothing [OF a]
      failed_openStream_allocates_nothing [OF b] failed_openStream_allocates_nothing [OF c]
    by blast
qed

text \<open>
  Claim C10. The only checks \<^verbatim>\<open>openStream\<close> makes before it uses the device descriptor are
  the two bounds checks: it returns \<open>-1\<close> with the context untouched exactly when the device
  index or the format index is out of range. It has no null check: at an in-range index
  whose descriptor is null, where \<^verbatim>\<open>getDeviceName\<close>, \<^verbatim>\<open>getNumFormats\<close> and \<^verbatim>\<open>getFormatInfo\<close>
  return their not-found values, \<^verbatim>\<open>openStream\<close> dereferences the null pointer, and that is
  the only way it dereferences one.
\<close>

theorem openStream_null_descriptor:
  "(openStream ops ctx ident formatID = Inr (- 1, ctx)) =
     (unat ident \<ge> length (m_devices ctx) \<or>
      (\<exists>device. m_devices ctx ! unat ident = Some device \<and> unat formatID \<ge> length (m_formats device)))
   \<and> (openStream ops ctx ident formatID = Inl NullDereference) =
     (unat ident < length (m_devices ctx) \<and> m_devices ctx ! unat ident = None)
   \<and> (unat ident < length (m_devices ctx) \<and> m_devices ctx ! unat ident = None \<longrightarrow>
        getDeviceName ctx ident = None \<and> getNumFormats ctx ident = - 1 \<and>
        getFormatInfo ctx ident formatID info = (False, info))"
proof -
  have grow: "ctx\<lparr>heap := heap ctx @ [x]\<rparr> \<noteq> ctx" for x
  proof
    assume "ctx\<lparr>heap := heap ctx @ [x]\<rparr> = ctx"
    then have "heap (ctx\<lparr>heap := heap ctx @ [x]\<rparr>) = heap ctx" by simp
    then show False by simp
  qed
  have bump: "ctx\<lparr>heap := hp, m_streamCounter := m_streamCounter ctx + 1, m_streams := ms\<rparr> \<noteq> ctx"
    for hp ms
  proof
    assume "ctx\<lparr>heap := hp, m_streamCounter := m_streamCounter ctx + 1, m_streams := ms\<rparr> = ctx"
    then have "m_streamCounter (ctx\<lparr>heap := hp, m_streamCounter := m_streamCounter ctx + 1,
        m_streams := ms\<rparr>) = m_streamCounter ctx" by simp
    then show False by simp
  qed
  have 1: "(openStream ops ctx ident formatID = Inr (- 1, ctx)) =
     (unat ident \<ge> length (m_devices ctx) \<or>
      (\<exists>device. m_devices ctx ! unat ident = Some device \<and> unat formatID \<ge> length (m_formats device)))"
    by (auto simp: openStream_unfold grow bump split: option.splits)
  have 2: "(openStream ops ctx ident formatID = Inl NullDereference) =
     (unat ident < length (m_devices ctx) \<and> m_devices ctx ! unat ident = None)"
    by (auto simp: openStream_unfold split: option.splits)
  have 3: "unat ident < length (m_devices ctx) \<and> m_devices ctx ! unat ident = None \<longrightarrow>
        getDeviceName ctx ident = None \<and> getNumFormats ctx ident = - 1 \<and>
        getFormatInfo ctx ident formatID info = (False, info)"
    by (simp add: getDeviceName_def getNumFormats_def getFormatInfo_def)
  from 1 2 3 show ?thesis by blast
qed

text \<open>On the simulated table the descriptor at index 1 is null.\<close>

theorem openStream_null_descriptor_witness:
  "unat (1 :: CapDeviceID) < length (m_devices sim_context)
   \<and> m_devices sim_context ! unat (1 :: CapDeviceID) = None
   \<and> openStream sim_ops sim_context 1 0 = Inl NullDereference
   \<and> getDeviceName sim_context 1 = None \<and> getNumFormats sim_context 1 = - 1
   \<and> getFormatInfo sim_context 1 0 \<lparr>width = 7, height = 7, fourcc = 7\<rparr> =
       (False, \<lparr>width = 7, height = 7, fourcc = 7\<rparr>)"
proof -
  have h: "unat (1 :: CapDeviceID) < length (m_devices sim_context)
      \<and> m_devices sim_context ! unat (1 :: CapDeviceID) = None"
    by (simp add: sim_defs)
  show ?thesis
    using h openStream_null_descriptor
      [of sim_ops sim_context 1 0 "\<lparr>width = 7, height = 7, fourcc = 7\<rparr>"]
    by blast
qed

section \<open>Properties of the property operations\<close>

text \<open>\<^verbatim>\<open>lookupStreamByID\<close> in terms of the entries of the session table.\<close>

lemma lookupStreamByID_table:
  "lookupStreamByID ctx h = (case map_of (m_streams ctx) h of None \<Rightarrow> None | Some p \<Rightarrow> p)"
  by (simp add: lookupStreamByID_def map_find_def)

text \<open>
  Claim C8. For every handle at which the session table \<^verbatim>\<open>m_streams\<close> holds no session
  (no entry under that key, or an entry whose pointer is null; a negative handle and a
  closed handle among them), \<^verbatim>\<open>getStreamPropertyLimits\<close>, \<^verbatim>\<open>setStreamProperty\<close> and
  \<^verbatim>\<open>setStreamAutoProperty\<close> return \<^verbatim>\<open>false\<close> and leave the whole state, every stream object
  included, as it was, whatever the stream methods are. For a handle whose entry in
  \<^verbatim>\<open>m_streams\<close> points to a live stream object they call that object's method: the result
  is the method's result and that object takes the state the method leaves.
\<close>

theorem property_ops_lookup_then_delegate:
  "(map_of (m_streams ctx) h = None \<or> map_of (m_streams ctx) h = Some None \<longrightarrow>
      getStreamPropertyLimits ops ctx h pid pmin pmax = Inr ((False, pmin, pmax), ctx) \<and>
      setStreamProperty ops ctx h pid val = Inr (False, ctx) \<and>
      setStreamAutoProperty ops ctx h pid enable = Inr (False, ctx))
   \<and> (map_of (m_streams ctx) h = Some (Some a) \<and> a < length (heap ctx) \<and> heap ctx ! a = Some s \<longrightarrow>
      getStreamPropertyLimits ops ctx h pid pmin pmax =
        Inr (fst (Stream_getPropertyLimits ops pid pmin pmax s),
             ctx\<lparr>heap := (heap ctx)[a := Some (snd (Stream_getPropertyLimits ops pid pmin pmax s))]\<rparr>) \<and>
      setStreamProperty ops ctx h pid val =
        Inr (fst (Stream_setProperty ops pid val s),
             ctx\<lparr>heap := (heap ctx)[a := Some (snd (Stream_setProperty ops pid val s))]\<rparr>) \<and>
      setStreamAutoProperty ops ctx h pid enable =
        Inr (fst (Stream_setAutoProperty ops pid enable s),
             ctx\<lparr>heap := (heap ctx)[a := Some (snd (Stream_setAutoProperty ops pid enable s))]\<rparr>))"
  by (auto simp: getStreamPropertyLimits_def setStreamProperty_def setStreamAutoProperty_def
      lookupStreamByID_table invoke_def)

text \<open>
  After open, open, close(0) on the simulated platform the table is \<open>[(1, Some 1)]\<close>:
  handle 0 (closed) and handle \<open>-1\<close> have no entry, handle 1 is live. In the last part
  the table also has an entry for handle 0 that holds a null pointer.
\<close>

theorem property_ops_lookup_then_delegate_witness:
  "map_of (m_streams sim_stale) 0 = None
   \<and> getStreamPropertyLimits sim_ops sim_stale 0 1 5 6 = Inr ((False, 5, 6), sim_stale)
   \<and> setStreamProperty sim_ops sim_stale 0 1 50 = Inr (False, sim_stale)
   \<and> setStreamAutoProperty sim_ops sim_stale 0 1 True = Inr (False, sim_stale)
   \<and> map_of (m_streams sim_stale) (- 1) = None
   \<and> getStreamPropertyLimits sim_ops sim_stale (- 1) 1 5 6 = Inr ((False, 5, 6), sim_stale)
   \<and> setStreamProperty sim_ops sim_stale (- 1) 1 50 = Inr (False, sim_stale)
   \<and> setStreamAutoProperty sim_ops sim_stale (- 1) 1 True = Inr (False, sim_stale)
   \<and> map_of (m_streams sim_stale) 1 = Some (Some 1)
   \<and> 1 < length (heap sim_stale)
   \<and> heap sim_stale ! 1 = Some \<lparr>sim_open = True, sim_frames = 0\<rparr>
   \<and> getStreamPropertyLimits sim_ops sim_stale 1 1 5 6 = Inr ((True, 0, 100), sim_stale)
   \<and> setStreamProperty sim_ops sim_stale 1 1 50 = Inr (True, sim_stale)
   \<and> setStreamAutoProperty sim_ops sim_stale 1 2 True = Inr (False, sim_stale)
   \<and> map_of (m_streams (sim_stale\<lparr>m_streams := [(1, Some 1), (0, None)]\<rparr>)) 0 = Some None
   \<and> setStreamProperty sim_ops (sim_stale\<lparr>m_streams := [(1, Some 1), (0, None)]\<rparr>) 0 1 50 =
       Inr (False, sim_stale\<lparr>m_streams := [(1, Some 1), (0, None)]\<rparr>)"
proof -
  have absent: "map_of (m_streams sim_stale) 0 = None" "map_of (m_streams sim_stale) (- 1) = None"
    by (simp_all add: sim_defs)
  have null: "map_of (m_streams (sim_stale\<lparr>m_streams := [(1, Some 1), (0, None)]\<rparr>)) 0 = Some None"
    by simp
  have live: "map_of (m_streams sim_stale) 1 = Some (Some 1) \<and> 1 < length (heap sim_stale) \<and>
      heap sim_stale ! 1 = Some \<lparr>sim_open = True, sim_frames = 0\<rparr>"
    by (simp add: sim_defs)
  have same: "sim_stale\<lparr>heap := (heap sim_stale)[Suc 0 := Some \<lparr>sim_open = True, sim_frames = 0\<rparr>]\<rparr>
      = sim_stale"
    by (simp add: sim_defs)
  have m: "Stream_getPropertyLimits sim_ops 1 5 6 \<lparr>sim_open = True, sim_frames = 0\<rparr> =
        ((True, 0, 100), \<lparr>sim_open = True, sim_frames = 0\<rparr>)"
      "Stream_setProperty sim_ops 1 50 \<lparr>sim_open = True, sim_frames = 0\<rparr> =
        (True, \<lparr>sim_open = True, sim_frames = 0\<rparr>)"
      "Stream_setAutoProperty sim_ops 2 True \<lparr>sim_open = True, sim_frames = 0\<rparr> =
        (False, \<lparr>sim_open = True, sim_frames = 0\<rparr>)"
    by (simp_all add: sim_ops_def)
  show ?thesis
    using absent live null
      property_ops_lookup_then_delegate [of sim_stale 0 sim_ops 1 5 6 50 True]
      property_ops_lookup_then_delegate [of sim_stale "- 1" sim_ops 1 5 6 50 True]
      property_ops_lookup_then_delegate
        [of sim_stale 1 sim_ops 1 5 6 50 True 1 "\<lparr>sim_open = True, sim_frames = 0\<rparr>"]
      property_ops_lookup_then_delegate
        [of sim_stale 1 sim_ops 2 5 6 50 True 1 "\<lparr>sim_open = True, sim_frames = 0\<rparr>"]
      property_ops_lookup_then_delegate
        [of "sim_stale\<lparr>m_streams := [(1, Some 1), (0, None)]\<rparr>" 0 sim_ops 1 5 6 50 True]
    by (simp add: m same)
qed

section \<open>Properties of the handle counter\<close>

text \<open>Only \<^verbatim>\<open>openStream\<close> changes the counter, and only when it stores a stream.\<close>

lemma closeStream_counter:
  "closeStream ctx h = Inr (r, ctx1) \<Longrightarrow> m_streamCounter ctx1 = m_streamCounter ctx"
  by (auto simp: closeStream_def removeStream_def
      split: if_splits option.splits sum.splits dest: delete_Stream_members)

lemma isOpenStream_counter:
  "isOpenStream ops ctx h = Inr (r, ctx1) \<Longrightarrow> m_streamCounter ctx1 = m_streamCounter ctx"
  by (auto simp: isOpenStream_def split: if_splits prod.splits sum.splits dest: invoke_members)

lemma captureFrame_counter:
  "captureFrame ops ctx h buf n = Inr (r, ctx1) \<Longrightarrow> m_streamCounter ctx1 = m_streamCounter ctx"
  by (auto simp: captureFrame_def split: if_splits prod.splits dest: invoke_members)

lemma hasNewFrame_counter:
  "hasNewFrame ops ctx h = Inr (r, ctx1) \<Longrightarrow> m_streamCounter ctx1 = m_streamCounter ctx"
  by (auto simp: hasNewFrame_def split: if_splits prod.splits dest: invoke_members)

lemma getStreamFrameCount_counter:
  "getStreamFrameCount ops ctx h = Inr (r, ctx1) \<Longrightarrow> m_streamCounter ctx1 = m_streamCounter ctx"
  by (auto simp: getStreamFrameCount_def split: if_splits prod.splits dest: invoke_members)

lemma getStreamPropertyLimits_counter:
  "getStreamPropertyLimits ops ctx h pid pmin pmax = Inr (r, ctx1) \<Longrightarrow>
     m_streamCounter ctx1 = m_streamCounter ctx"
  by (auto simp: getStreamPropertyLimits_def Let_def split: if_splits dest: invoke_members)

lemma setStreamAutoProperty_counter:
  "setStreamAutoProperty ops ctx h pid enable = Inr (r, ctx1) \<Longrightarrow>
     m_streamCounter ctx1 = m_streamCounter ctx"
  by (auto simp: setStreamAutoProperty_def Let_def split: if_splits dest: invoke_members)

lemma setStreamProperty_counter:
  "setStreamProperty ops ctx h pid val = Inr (r, ctx1) \<Longrightarrow>
     m_streamCounter ctx1 = m_streamCounter ctx"
  by (auto simp: setStreamProperty_def Let_def split: if_splits dest: invoke_members)

lemma openStream_counter:
  assumes "openStream ops ctx ident formatID = Inr (h, ctx1)"
  shows "(h = - 1 \<and> m_streamCounter ctx1 = m_streamCounter ctx) \<or>
         (h = m_streamCounter ctx \<and> m_streamCounter ctx1 = m_streamCounter ctx + 1)"
  using assms
  by (auto simp: openStream_unfold split: if_splits option.splits)

lemma returning_Inr:
  "returning f x = Inr (r, ctx1) \<Longrightarrow> \<exists>y. x = Inr (y, ctx1) \<and> r = f y"
  by (auto simp: returning_def split: sum.splits)

text \<open>
  One call either leaves the counter alone and returns no handle, or returns the
  counter's value as the handle and increments the counter.
\<close>

lemma step_counter:
  assumes "step ops ctx c = Inr (r, ctx1)"
    and "m_streamCounter ctx = of_nat n"
  shows "(handle_of r = None \<and> m_streamCounter ctx1 = of_nat n) \<or>
         (r = RetHandle (of_nat n) \<and> m_streamCounter ctx1 = of_nat (Suc n))"
proof (cases c)
  case (OpenStream ident formatID)
  with assms(1) obtain h where h: "openStream ops ctx ident formatID = Inr (h, ctx1)"
    and r: "r = RetHandle h"
    by (auto dest: returning_Inr)
  from openStream_counter [OF h] show ?thesis
    using r assms(2) by auto
qed (use assms in \<open>auto dest!: returning_Inr
       dest: closeStream_counter isOpenStream_counter captureFrame_counter hasNewFrame_counter
         getStreamFrameCount_counter getStreamPropertyLimits_counter setStreamAutoProperty_counter
         setStreamProperty_counter\<close>)

lemma opened_handles_Nil: "opened_handles ops ctx [] = []"
  by (simp add: opened_handles_def)

lemma opened_handles_Cons:
  "opened_handles ops ctx (c # cs) =
     (case step ops ctx c of
        Inl e \<Rightarrow> []
      | Inr (r, ctx1) \<Rightarrow>
          (case handle_of r of None \<Rightarrow> [] | Some h \<Rightarrow> [h]) @ opened_handles ops ctx1 cs)"
  by (simp add: opened_handles_def split: sum.splits option.splits)

text \<open>
  The handles a sequence of calls returns are consecutive values of the 32-bit counter,
  without the value \<open>-1\<close>, which a caller reads as failure.
\<close>

lemma opened_handles_consecutive:
  "m_streamCounter ctx = of_nat n \<Longrightarrow>
     \<exists>k. opened_handles ops ctx cs = filter (\<lambda>h. h \<noteq> - 1) (map of_nat [n..<n + k])"
proof (induction cs arbitrary: ctx n)
  case Nil
  have "opened_handles ops ctx [] = filter (\<lambda>h. h \<noteq> - 1) (map of_nat [n..<n + 0])"
    by (simp add: opened_handles_Nil)
  then show ?case by blast
next
  case (Cons c cs)
  show ?case
  proof (cases "step ops ctx c")
    case (Inl e)
    then have "opened_handles ops ctx (c # cs) = filter (\<lambda>h. h \<noteq> - 1) (map of_nat [n..<n + 0])"
      by (simp add: opened_handles_Cons)
    then show ?thesis by blast
  next
    case (Inr p)
    obtain r ctx1 where p: "p = (r, ctx1)" by (cases p)
    from step_counter [OF Inr [unfolded p] Cons.prems] show ?thesis
    proof
      assume a: "handle_of r = None \<and> m_streamCounter ctx1 = of_nat n"
      from Cons.IH [of ctx1 n] a obtain k
        where "opened_handles ops ctx1 cs = filter (\<lambda>h. h \<noteq> - 1) (map of_nat [n..<n + k])"
        by blast
      then have "opened_handles ops ctx (c # cs) = filter (\<lambda>h. h \<noteq> - 1) (map of_nat [n..<n + k])"
        using a Inr p by (simp add: opened_handles_Cons)
      then show ?thesis by blast
    next
      assume a: "r = RetHandle (of_nat n) \<and> m_streamCounter ctx1 = of_nat (Suc n)"
      from Cons.IH [of ctx1 "Suc n"] a obtain k
        where k: "opened_handles ops ctx1 cs =
          filter (\<lambda>h. h \<noteq> - 1) (map of_nat [Suc n..<Suc n + k])"
        by blast
      have "[n..<n + Suc k] = n # [Suc n..<Suc n + k]"
        by (simp add: upt_conv_Cons)
      then have "opened_handles ops ctx (c # cs) =
          filter (\<lambda>h. h \<noteq> - 1) (map of_nat [n..<n + Suc k])"
        using a Inr p k by (simp add: opened_handles_Cons)
      then show ?thesis by blast
    qed
  qed
qed

lemma of_nat_not_minus_one:
  assumes "i < 2 ^ 32 - 1"
  shows "(of_nat i :: 32 word) \<noteq> - 1"
proof
  assume "(of_nat i :: 32 word) = - 1"
  then have "unat (of_nat i :: 32 word) = unat (- 1 :: 32 word)" by simp
  moreover have "unat (- 1 :: 32 word) = 4294967295"
    by (simp add: unsigned_minus_1_eq_mask mask_eq_exp_minus_1)
  ultimately show False using assms by (simp add: unat_of_nat)
qed

lemma filter_consecutive_small:
  assumes "n + k \<le> 2 ^ 32 - 1"
  shows "filter (\<lambda>h. h \<noteq> - 1) (map of_nat [n..<n + k] :: 32 word list) = map of_nat [n..<n + k]"
proof -
  have "\<forall>x \<in> set (map of_nat [n..<n + k] :: 32 word list). x \<noteq> - 1"
  proof
    fix x :: "32 word"
    assume "x \<in> set (map of_nat [n..<n + k])"
    then obtain i where "x = of_nat i" "i < n + k" by auto
    then show "x \<noteq> - 1" using assms of_nat_not_minus_one [of i] by simp
  qed
  then show ?thesis by (simp only: filter_id_conv)
qed

lemma filter_consecutive_length:
  "min k (2 ^ 32 - 1) \<le> length (filter (\<lambda>h. h \<noteq> - 1) (map of_nat [0..<k] :: 32 word list))"
proof (induction k)
  case 0
  show ?case by simp
next
  case (Suc k)
  show ?case
  proof (cases "k < 2 ^ 32 - 1")
    case True
    then have "(of_nat k :: 32 word) \<noteq> - 1" by (rule of_nat_not_minus_one)
    then show ?thesis using Suc True by simp
  next
    case False
    then show ?thesis using Suc by simp
  qed
qed

lemma consecutive_sorted:
  assumes "n + k \<le> 2 ^ 31"
  shows "sorted_wrt (\<lambda>a b. sint a < sint b) (map of_nat [n..<n + k] :: 32 word list)"
proof -
  have "sorted_wrt (\<lambda>x y. sint (of_nat x :: 32 word) < sint (of_nat y :: 32 word)) [n..<n + k]"
  proof (rule sorted_wrt_mono_rel [where P = "(<)"])
    fix x y assume "x \<in> set [n..<n + k]" "y \<in> set [n..<n + k]" "x < y"
    then have "x < 2 ^ 31" "y < 2 ^ 31" using assms by auto
    then show "sint (of_nat x :: 32 word) < sint (of_nat y :: 32 word)"
      using \<open>x < y\<close> by (simp add: sint_of_nat_small)
  next
    show "sorted_wrt (<) [n..<n + k]" by simp
  qed
  then show ?thesis by (simp add: sorted_wrt_map)
qed

lemma sorted_sint_distinct:
  "sorted_wrt (\<lambda>a b. sint a < sint b) (hs :: 32 word list) \<Longrightarrow> distinct hs"
  by (induction hs) auto

lemma sim_open_close_open:
  "opened_handles sim_ops (Context_new sim_devices)
     [OpenStream 0 0, CloseStream 0, OpenStream 0 0] = [0, 1]"
  by (simp add: opened_handles_def context_defs sim_defs)

text \<open>Opening format 0 of device 0 on the simulated platform always stores a stream.\<close>

lemma sim_openStream_stores:
  assumes "m_devices ctx = sim_devices"
  shows "\<exists>ctx1. openStream sim_ops ctx 0 0 = Inr (m_streamCounter ctx, ctx1) \<and>
           m_devices ctx1 = sim_devices \<and> m_streamCounter ctx1 = m_streamCounter ctx + 1"
  using assms
  by (simp add: openStream_unfold opened_state_def sim_devices_def sim_ops_def)

lemma sim_repeated_open:
  "m_devices ctx = sim_devices \<Longrightarrow> m_streamCounter ctx = of_nat m \<Longrightarrow>
     opened_handles sim_ops ctx (replicate n (OpenStream 0 0)) =
       filter (\<lambda>h. h \<noteq> - 1) (map of_nat [m..<m + n])"
proof (induction n arbitrary: ctx m)
  case 0
  show ?case by (simp add: opened_handles_Nil)
next
  case (Suc n)
  from sim_openStream_stores [OF Suc.prems(1)] obtain ctx1
    where o: "openStream sim_ops ctx 0 0 = Inr (m_streamCounter ctx, ctx1)"
      and d: "m_devices ctx1 = sim_devices"
      and c: "m_streamCounter ctx1 = m_streamCounter ctx + 1"
    by blast
  have c1: "m_streamCounter ctx1 = of_nat (Suc m)"
    using c Suc.prems(2) by simp
  have u: "[m..<m + Suc n] = m # [Suc m..<Suc m + n]"
    by (simp add: upt_conv_Cons)
  show ?case
    using Suc.IH [OF d c1] o Suc.prems(2) u
    by (simp add: opened_handles_Cons returning_def)
qed

lemma sim_repeated_open_nth:
  assumes "n \<le> 2 ^ 32 - 1" and "i < n"
  shows "opened_handles sim_ops sim_context (replicate n (OpenStream 0 0)) ! i = of_nat i"
proof -
  have "opened_handles sim_ops sim_context (replicate n (OpenStream 0 0)) =
      filter (\<lambda>h. h \<noteq> - 1) (map of_nat [0..<0 + n])"
    by (rule sim_repeated_open) (simp_all add: sim_context_def Context_new_def)
  also have "\<dots> = map of_nat [0..<0 + n]"
    using assms(1) by (intro filter_consecutive_small) simp
  finally show ?thesis using assms(2) by simp
qed

text \<open>
  Claim C5, as stated for every sequence of calls, fails: the counter is a 32-bit signed
  integer that wraps around. After \<open>2^31\<close> successful \<^verbatim>\<open>openStream\<close> calls on the simulated
  platform the next one returns \<^verbatim>\<open>INT32_MIN\<close>, which is less than the handle \<^verbatim>\<open>INT32_MAX\<close>
  returned just before it.
\<close>

theorem handles_wrap_counterexample:
  "opened_handles sim_ops sim_context (replicate (2 ^ 31 + 1) (OpenStream 0 0)) ! (2 ^ 31 - 1)
     = 0x7FFFFFFF
   \<and> opened_handles sim_ops sim_context (replicate (2 ^ 31 + 1) (OpenStream 0 0)) ! (2 ^ 31)
     = 0x80000000
   \<and> sint (0x80000000 :: int32_t) < sint (0x7FFFFFFF :: int32_t)"
proof -
  have a: "opened_handles sim_ops sim_context (replicate (2 ^ 31 + 1) (OpenStream 0 0)) ! (2 ^ 31 - 1)
      = of_nat (2 ^ 31 - 1)"
    by (rule sim_repeated_open_nth) simp_all
  have b: "opened_handles sim_ops sim_context (replicate (2 ^ 31 + 1) (OpenStream 0 0)) ! (2 ^ 31)
      = of_nat (2 ^ 31)"
    by (rule sim_repeated_open_nth) simp_all
  have c: "(of_nat (2 ^ 31 - 1) :: int32_t) = 0x7FFFFFFF"
    by simp
  have d: "(of_nat (2 ^ 31) :: int32_t) = 0x80000000"
    by simp
  have e: "sint (0x80000000 :: int32_t) < sint (0x7FFFFFFF :: int32_t)"
    by simp
  show ?thesis
    using a [unfolded c] b [unfolded d] e by (intro conjI)
qed

text \<open>
  Claim C5, amended. Handles come from a counter that starts at 0 and goes up by one with
  every stored stream, and they are not reused, also after a removal, as long as the
  context has returned at most \<open>2^31\<close> handles: for every sequence of calls on a new context
  in which at most \<open>2^31\<close> \<^verbatim>\<open>openStream\<close> calls succeed, the handles they return are strictly
  increasing in call order (as signed numbers), hence pairwise distinct, and the first
  of them is 0. Closing a stream in between changes nothing.
\<close>

theorem handles_strictly_increasing:
  assumes "length (opened_handles ops (Context_new devs) cs) \<le> 2 ^ 31"
  shows "sorted_wrt (\<lambda>a b. sint a < sint b) (opened_handles ops (Context_new devs) cs) \<and>
   distinct (opened_handles ops (Context_new devs) cs) \<and>
   (opened_handles ops (Context_new devs) cs \<noteq> [] \<longrightarrow>
      hd (opened_handles ops (Context_new devs) cs) = 0)"
proof -
  have "m_streamCounter (Context_new devs :: 's Context) = of_nat 0"
    by (simp add: Context_new_def)
  from opened_handles_consecutive [OF this, of ops cs] obtain k
    where f: "opened_handles ops (Context_new devs) cs =
        filter (\<lambda>h. h \<noteq> - 1) (map of_nat [0..<0 + k])"
    by auto
  have "min k (2 ^ 32 - 1) \<le> (2::nat) ^ 31"
    using filter_consecutive_length [of k] assms f by simp
  then have k: "0 + k \<le> (2::nat) ^ 31" by simp
  then have "0 + k \<le> (2::nat) ^ 32 - 1" by simp
  then have hs: "opened_handles ops (Context_new devs) cs = map of_nat [0..<0 + k]"
    unfolding f by (rule filter_consecutive_small)
  have s: "sorted_wrt (\<lambda>a b. sint a < sint b) (opened_handles ops (Context_new devs) cs)"
    unfolding hs using k by (rule consecutive_sorted)
  have "opened_handles ops (Context_new devs) cs \<noteq> [] \<longrightarrow>
      hd (opened_handles ops (Context_new devs) cs) = 0"
    unfolding hs by (simp add: hd_map)
  with s sorted_sint_distinct [OF s] show ?thesis by blast
qed

text \<open>Open, close, open again on the same device: the handles are 0 and 1.\<close>

theorem handles_strictly_increasing_witness:
  "opened_handles sim_ops (Context_new sim_devices)
     [OpenStream 0 0, CloseStream 0, OpenStream 0 0] = [0, 1]
   \<and> length [0, 1 :: int32_t] \<le> 2 ^ 31
   \<and> sorted_wrt (\<lambda>a b. sint a < sint b) [0, 1 :: int32_t]
   \<and> distinct [0, 1 :: int32_t]
   \<and> hd [0, 1 :: int32_t] = 0"
  using handles_strictly_increasing
    [of sim_ops sim_devices "[OpenStream 0 0, CloseStream 0, OpenStream 0 0]"]
  by (simp add: sim_open_close_open)

section \<open>Properties of closeStream\<close>

text \<open>What \<^verbatim>\<open>closeStream\<close> does in each of its three cases.\<close>

lemma closeStream_negative:
  "sint h < 0 \<Longrightarrow> closeStream ctx h = Inr (False, ctx)"
  by (simp add: closeStream_def)

lemma closeStream_absent:
  "0 \<le> sint h \<Longrightarrow> map_find h (m_streams ctx) = None \<Longrightarrow> closeStream ctx h = Inr (True, ctx)"
  by (simp add: closeStream_def removeStream_def)

lemma closeStream_present:
  "0 \<le> sint h \<Longrightarrow> map_find h (m_streams ctx) = Some (Some a) \<Longrightarrow>
   a < length (heap ctx) \<Longrightarrow> heap ctx ! a = Some s \<Longrightarrow>
     closeStream ctx h =
       Inr (True, ctx\<lparr>heap := (heap ctx)[a := None], m_streams := map_erase h (m_streams ctx)\<rparr>)"
  by (simp add: closeStream_def removeStream_def delete_Stream_def)

lemma map_erase_other:
  "k \<noteq> h \<Longrightarrow> map_find k (map_erase h m) = map_find k m"
  by (induction m) (auto simp: map_find_def map_erase_def)

lemma map_erase_gone: "map_find h (map_erase h m) = None"
  by (induction m) (auto simp: map_find_def map_erase_def)

text \<open>
  Claim C1 says that \<^verbatim>\<open>closeStream\<close> returns \<^verbatim>\<open>false\<close> for a non-negative handle at which no
  session exists, and \<^verbatim>\<open>true\<close> exactly when a session existed. The code returns \<^verbatim>\<open>true\<close> for
  every non-negative handle: on a new context \<^verbatim>\<open>closeStream(0)\<close> returns \<^verbatim>\<open>true\<close>, and in the
  specification's example (open, close, close again) the second close returns \<^verbatim>\<open>true\<close> too.
\<close>

theorem closeStream_absent_handle_returns_true:
  "closeStream sim_context 0 = Inr (True, sim_context) \<and>
   fst (run sim_ops sim_context [OpenStream 0 1, CloseStream 0, CloseStream 0]) =
     [RetHandle 0, RetBool True, RetBool True]"
  by (simp add: context_defs sim_defs)

section \<open>Properties of the operations guarded by the table size\<close>

lemma run_open_open_close:
  "run sim_ops sim_context [OpenStream 0 0, OpenStream 0 0, CloseStream 0] =
     ([RetHandle 0, RetHandle 1, RetBool True], Inr sim_stale)"
  by (simp add: context_defs sim_defs)

text \<open>
  A negative handle and a handle not below the number of entries give the failure value
  and change nothing.
\<close>

lemma size_guard_rejects:
  "sint h < 0 \<or> length (m_streams ctx) \<le> unat h \<Longrightarrow>
     isOpenStream ops ctx h = Inr (0, ctx) \<and>
     captureFrame ops ctx h buf n = Inr ((False, buf), ctx) \<and>
     hasNewFrame ops ctx h = Inr (False, ctx) \<and>
     getStreamFrameCount ops ctx h = Inr (0, ctx)"
  by (auto simp: isOpenStream_def captureFrame_def hasNewFrame_def getStreamFrameCount_def)

text \<open>
  A non-negative handle below the number of entries whose key is not in the table:
  \<^verbatim>\<open>m_streams[streamID]\<close> yields a null pointer, which is dereferenced.
\<close>

lemma absent_key_below_size_faults:
  "0 \<le> sint h \<Longrightarrow> unat h < length (m_streams ctx) \<Longrightarrow> map_find h (m_streams ctx) = None \<Longrightarrow>
     isOpenStream ops ctx h = Inl NullDereference \<and>
     captureFrame ops ctx h buf n = Inl NullDereference \<and>
     hasNewFrame ops ctx h = Inl NullDereference \<and>
     getStreamFrameCount ops ctx h = Inl NullDereference"
  by (simp add: isOpenStream_def captureFrame_def hasNewFrame_def getStreamFrameCount_def
      map_subscript_def map_find_def invoke_def)

text \<open>A key in the table that passes the size check: the session's state is reported.\<close>

lemma isOpenStream_found_below_size:
  "0 \<le> sint h \<Longrightarrow> unat h < length (m_streams ctx) \<Longrightarrow>
   map_find h (m_streams ctx) = Some (Some a) \<Longrightarrow> a < length (heap ctx) \<Longrightarrow>
   heap ctx ! a = Some s \<Longrightarrow>
     isOpenStream ops ctx h =
       Inr (if fst (Stream_isOpen ops s) then 1 else 0,
            ctx\<lparr>heap := (heap ctx)[a := Some (snd (Stream_isOpen ops s))]\<rparr>)"
  by (simp add: isOpenStream_def map_subscript_def map_find_def invoke_def)

text \<open>
  Claim C2 says that for every handle at which no session is present, a closed handle
  with a live larger handle among them, \<^verbatim>\<open>captureFrame\<close>, \<^verbatim>\<open>hasNewFrame\<close>,
  \<^verbatim>\<open>getStreamFrameCount\<close> and \<^verbatim>\<open>isOpenStream\<close> return their failure value without undefined
  behaviour. The code does not: after open, open, close(0) the table has one entry, so
  handle 0 passes the size check, \<^verbatim>\<open>m_streams[0]\<close> inserts and yields a null pointer, and
  each of the four operations dereferences it.
\<close>

theorem closed_handle_null_dereference:
  "snd (run sim_ops sim_context [OpenStream 0 0, OpenStream 0 0, CloseStream 0]) = Inr sim_stale \<and>
   lookupStreamByID sim_stale 0 = None \<and>
   isOpenStream sim_ops sim_stale 0 = Inl NullDereference \<and>
   captureFrame sim_ops sim_stale 0 [] 3 = Inl NullDereference \<and>
   hasNewFrame sim_ops sim_stale 0 = Inl NullDereference \<and>
   getStreamFrameCount sim_ops sim_stale 0 = Inl NullDereference"
  by (simp add: run_open_open_close) (simp add: context_defs sim_defs)

text \<open>
  Claim C3 says that for every handle that refers to a live session \<^verbatim>\<open>isOpenStream\<close>
  returns the session's open state, and 0 only for a negative handle or one that refers
  to no live session. The code does not: after open, open, close(0) handle 1 refers to a
  live, open session, the table has one entry, handle 1 fails the size check and
  \<^verbatim>\<open>isOpenStream(1)\<close> returns 0.
\<close>

theorem live_handle_reported_closed:
  "snd (run sim_ops sim_context [OpenStream 0 0, OpenStream 0 0, CloseStream 0]) = Inr sim_stale \<and>
   lookupStreamByID sim_stale 1 = Some 1 \<and>
   heap sim_stale ! 1 = Some \<lparr>sim_open = True, sim_frames = 0\<rparr> \<and>
   Stream_isOpen sim_ops \<lparr>sim_open = True, sim_frames = 0\<rparr> =
     (True, \<lparr>sim_open = True, sim_frames = 0\<rparr>) \<and>
   isOpenStream sim_ops sim_stale 1 = Inr (0, sim_stale)"
  by (simp add: run_open_open_close) (simp add: context_defs sim_defs)


end
